theory Spec2Isabelle
  imports Complex_Main
begin

section \<open>Values of the pipeline\<close>

text \<open>
  The currency ETL pipeline of \<^verbatim>\<open>dags/dag_currency_etl.py\<close> passes three kinds of
  values between its tasks: the decoded JSON body of the rate service, pandas data
  frames, and Python exceptions.

  A decoded JSON value. A Python \<^verbatim>\<open>dict\<close> keeps its items in insertion order, and
  the order of the \<^verbatim>\<open>rates\<close> items is the order of the rows of the table, so a
  dictionary is the list of its items. Finite floats are carried as the rational
  number they denote; the pipeline never computes with them.
\<close>

datatype json =
    JNull
  | JBool bool
  | JInt int
  | JFloat rat
  | JStr string
  | JList "json list"
  | JDict "(string \<times> json) list"

text \<open>
  The exceptions the tasks raise or let through, each with its message.
  \<open>RequestException\<close> stands for \<^verbatim>\<open>requests.exceptions.RequestException\<close> and all of
  its subclasses (\<^verbatim>\<open>ConnectionError\<close>, \<^verbatim>\<open>Timeout\<close>, \<^verbatim>\<open>HTTPError\<close>, ...).
\<close>

datatype exn =
    RequestException string
  | AirflowException string
  | ValueError string
  | AttributeError string
  | KeyError string
  | TypeError string
  | OtherException string

text \<open>Python's truth value of a JSON value, as tested by \<^verbatim>\<open>if not rates\<close>.\<close>

fun truthy :: "json \<Rightarrow> bool" where
  "truthy JNull = False"
| "truthy (JBool b) = b"
| "truthy (JInt i) = (i \<noteq> 0)"
| "truthy (JFloat r) = (r \<noteq> 0)"
| "truthy (JStr s) = (s \<noteq> [])"
| "truthy (JList xs) = (xs \<noteq> [])"
| "truthy (JDict kvs) = (kvs \<noteq> [])"

text \<open>\<^verbatim>\<open>d.get(key, default)\<close> on a dictionary.\<close>

definition py_get :: "(string \<times> json) list \<Rightarrow> string \<Rightarrow> json \<Rightarrow> json" where
  "py_get d k dflt = (case map_of d k of None \<Rightarrow> dflt | Some v \<Rightarrow> v)"

section \<open>Data frames\<close>

text \<open>
  A cell of the table: a string (\<^verbatim>\<open>currency_code\<close>, \<^verbatim>\<open>base_currency\<close>), a value
  taken over from the response (\<^verbatim>\<open>rate\<close>), or a timestamp (\<^verbatim>\<open>date\<close>). The type of
  timestamps is a parameter, as is the function that produces them.
\<close>

datatype 'd cell = Str string | Val json | Date 'd

text \<open>
  A pandas \<^verbatim>\<open>DataFrame\<close> with the default index: its columns in order, each with its
  name and its cells.
\<close>

type_synonym 'd dataframe = "(string \<times> 'd cell list) list"

definition nrows :: "'d dataframe \<Rightarrow> nat" where
  "nrows df = (case df of [] \<Rightarrow> 0 | (_, cs) # _ \<Rightarrow> length cs)"

text \<open>
  \<^verbatim>\<open>pd.DataFrame(list(rates.items()), columns=["currency_code", "rate"])\<close>: one row per
  item, the key in the first column and the value in the second.
\<close>

definition DataFrame :: "(string \<times> json) list \<Rightarrow> 'd dataframe" where
  "DataFrame items =
     [(''currency_code'', map (\<lambda>kv. Str (fst kv)) items),
      (''rate'', map (\<lambda>kv. Val (snd kv)) items)]"

text \<open>
  \<^verbatim>\<open>df[name] = scalar\<close>: the scalar fills a column of the frame's length, which
  replaces the column of that name or is appended as the last column.
\<close>

definition setitem :: "'d dataframe \<Rightarrow> string \<Rightarrow> 'd cell \<Rightarrow> 'd dataframe" where
  "setitem df name c =
     (let col = replicate (nrows df) c in
      if name \<in> set (map fst df)
      then map (\<lambda>(n, cs). if n = name then (n, col) else (n, cs)) df
      else df @ [(name, col)])"

text \<open>
  \<^verbatim>\<open>df[names]\<close>: the named columns in the order asked for; \<^verbatim>\<open>KeyError\<close> when one
  is missing.
\<close>

fun getitem :: "'d dataframe \<Rightarrow> string list \<Rightarrow> exn + 'd dataframe" where
  "getitem df [] = Inr []"
| "getitem df (n # ns) =
     (case map_of df n of
        None \<Rightarrow> Inl (KeyError n)
      | Some cs \<Rightarrow>
          (case getitem df ns of
             Inl e \<Rightarrow> Inl e
           | Inr rest \<Rightarrow> Inr ((n, cs) # rest)))"

text \<open>The column names and the rows of a frame, read off its columns.\<close>

definition columns :: "'d dataframe \<Rightarrow> string list" where
  "columns df = map fst df"

definition rows :: "'d dataframe \<Rightarrow> 'd cell list list" where
  "rows df = map (\<lambda>i. map (\<lambda>col. snd col ! i) df) [0..<nrows df]"

section \<open>The transform task\<close>

definition final_columns :: "string list" where
  "final_columns = [''date'', ''base_currency'', ''currency_code'', ''rate'']"

text \<open>
  \<^verbatim>\<open>transform(data, logical_date_str, base_currency)\<close>. \<^verbatim>\<open>pd.to_datetime\<close> belongs to
  pandas and is a parameter: it raises (\<open>Inl\<close>) or yields the timestamp that is written
  into every row. An empty or missing \<^verbatim>\<open>rates\<close> raises \<^verbatim>\<open>ValueError\<close>; a
  \<^verbatim>\<open>rates\<close> that is true but no dictionary has no \<^verbatim>\<open>items\<close>.
\<close>

definition transform ::
  "(json \<Rightarrow> exn + 'd) \<Rightarrow> (string \<times> json) list \<Rightarrow> string \<Rightarrow> string \<Rightarrow> exn + 'd dataframe" where
  "transform to_datetime data logical_date_str base_currency =
     (let rates = py_get data ''rates'' (JDict []) in
      if \<not> truthy rates
      then Inl (ValueError (''No rate data available for '' @ logical_date_str))
      else
        (case rates of
           JDict items \<Rightarrow>
             (let df = DataFrame items;
                  df = setitem df ''base_currency'' (Str base_currency)
              in case to_datetime (py_get data ''date'' (JStr logical_date_str)) of
                   Inl e \<Rightarrow> Inl e
                 | Inr ts \<Rightarrow> getitem (setitem df ''date'' (Date ts)) final_columns)
         | _ \<Rightarrow> Inl (AttributeError ''items'')))"

section \<open>Calendar dates\<close>

text \<open>
  The timestamp pandas yields for a calendar date: midnight of that day.
\<close>

datatype timestamp = Timestamp (year: nat) (month: nat) (day: nat)

definition digit :: "char \<Rightarrow> nat option" where
  "digit c = (let n = (of_char c :: nat) in if 48 \<le> n \<and> n \<le> 57 then Some (n - 48) else None)"

definition leap_year :: "nat \<Rightarrow> bool" where
  "leap_year y = (y mod 4 = 0 \<and> (y mod 100 \<noteq> 0 \<or> y mod 400 = 0))"

definition days_in_month :: "nat \<Rightarrow> nat \<Rightarrow> nat" where
  "days_in_month y m =
     (if m = 2 then (if leap_year y then 29 else 28)
      else if m = 4 \<or> m = 6 \<or> m = 9 \<or> m = 11 then 30
      else 31)"

text \<open>A string of the form \<^verbatim>\<open>YYYY-MM-DD\<close> that names a day of the calendar.\<close>

definition parse_iso_date :: "string \<Rightarrow> timestamp option" where
  "parse_iso_date s =
     (case s of
        [y1, y2, y3, y4, s1, m1, m2, s2, d1, d2] \<Rightarrow>
          (if s1 = CHR ''-'' \<and> s2 = CHR ''-'' then
             (case those (map digit [y1, y2, y3, y4, m1, m2, d1, d2]) of
                Some [a, b, c, d, e, f, g, h] \<Rightarrow>
                  (let y = 1000 * a + 100 * b + 10 * c + d; m = 10 * e + f; dd = 10 * g + h
                   in if 1 \<le> y \<and> 1 \<le> m \<and> m \<le> 12 \<and> 1 \<le> dd \<and> dd \<le> days_in_month y m
                      then Some (Timestamp y m dd) else None)
              | _ \<Rightarrow> None)
           else None)
      | _ \<Rightarrow> None)"

text \<open>
  \<^verbatim>\<open>pd.to_datetime\<close> cut down to the dates the rate service and the scheduler
  exchange: a \<^verbatim>\<open>YYYY-MM-DD\<close> string is parsed, anything else is refused. pandas reads
  more formats than this; the function serves the concrete runs below, whose dates are
  either of that form or \<^verbatim>\<open>garbage\<close>, which pandas refuses too. Every general
  statement is made for an arbitrary \<open>to_datetime\<close>.
\<close>

definition iso_to_datetime :: "json \<Rightarrow> exn + timestamp" where
  "iso_to_datetime v =
     (case v of
        JStr s \<Rightarrow>
          (case parse_iso_date s of
             Some t \<Rightarrow> Inr t
           | None \<Rightarrow> Inl (ValueError (''Unknown datetime string format, unable to parse: '' @ s)))
      | _ \<Rightarrow> Inl (TypeError ''not convertible to datetime''))"

section \<open>The extract task\<close>

text \<open>
  What \<^verbatim>\<open>requests.get\<close> hands back: the status line, the address and what
  \<^verbatim>\<open>response.json()\<close> does with the body (it raises, or it yields the decoded value).
\<close>

record response =
  status_code :: nat
  reason :: string
  url :: string
  json_body :: "exn + json"

function string_of_nat :: "nat \<Rightarrow> string" where
  "string_of_nat n =
     (if n < 10 then [char_of (48 + n)]
      else string_of_nat (n div 10) @ [char_of (48 + n mod 10)])"
  by pat_completeness auto
termination
  by (relation "measure id") auto

declare string_of_nat.simps [simp del]

text \<open>
  \<^verbatim>\<open>response.raise_for_status()\<close> of the requests library: an \<^verbatim>\<open>HTTPError\<close> for a
  status from 400 to 599, nothing otherwise.
\<close>

definition raise_for_status :: "response \<Rightarrow> exn + unit" where
  "raise_for_status r =
     (if 400 \<le> status_code r \<and> status_code r < 500
      then Inl (RequestException
             (string_of_nat (status_code r) @ '' Client Error: '' @ reason r @ '' for url: '' @ url r))
      else if 500 \<le> status_code r \<and> status_code r < 600
      then Inl (RequestException
             (string_of_nat (status_code r) @ '' Server Error: '' @ reason r @ '' for url: '' @ url r))
      else Inr ())"

text \<open>
  The handler of the \<^verbatim>\<open>try\<close> block: \<^verbatim>\<open>except RequestException as e\<close> turns a
  \<^verbatim>\<open>RequestException\<close> into an \<^verbatim>\<open>AirflowException\<close>; any other exception leaves the
  task as it is.
\<close>

definition except_RequestException :: "exn \<Rightarrow> exn + 'a" where
  "except_RequestException e =
     (case e of
        RequestException msg \<Rightarrow> Inl (AirflowException (''API request failed: '' @ msg))
      | _ \<Rightarrow> Inl e)"

text \<open>
  \<^verbatim>\<open>extract(logical_date_str, base_currency)\<close>, named \<open>extract_task\<close> here
  because \<^verbatim>\<open>extract\<close> is a reserved word of Isabelle. The network is the parameter
  \<open>requests_get\<close>, from the address and the query parameters to what
  \<^verbatim>\<open>requests.get\<close> does; \<open>API_URL\<close> is the constant of \<^verbatim>\<open>helpers.constants\<close>.
  The log line reads \<^verbatim>\<open>data.get('date')\<close>, which only a dictionary has.
\<close>

definition extract_task ::
  "(string \<Rightarrow> (string \<times> string) list \<Rightarrow> exn + response) \<Rightarrow> string \<Rightarrow> string \<Rightarrow> string
     \<Rightarrow> exn + (string \<times> json) list" where
  "extract_task requests_get API_URL logical_date_str base_currency =
     (let endpoint = API_URL @ ''/'' @ logical_date_str;
          params = [(''base'', base_currency)]
      in case requests_get endpoint params of
           Inl e \<Rightarrow> except_RequestException e
         | Inr response \<Rightarrow>
             (case raise_for_status response of
                Inl e \<Rightarrow> except_RequestException e
              | Inr _ \<Rightarrow>
                  (case json_body response of
                     Inl e \<Rightarrow> except_RequestException e
                   | Inr data \<Rightarrow>
                       (case data of
                          JDict d \<Rightarrow> Inr d
                        | _ \<Rightarrow> except_RequestException (AttributeError ''get'')))))"

section \<open>The load task\<close>

text \<open>
  A Parquet file: its compression and the table it holds (written without the index).
  The bucket maps each object name to the file stored under it.
\<close>

datatype 'd parquet = Parquet (compression: string) (table: "'d dataframe")

type_synonym 'd bucket = "string \<rightharpoonup> 'd parquet"

text \<open>\<^verbatim>\<open>str(e)\<close> of an exception.\<close>

fun str :: "exn \<Rightarrow> string" where
  "str (RequestException m) = m"
| "str (AirflowException m) = m"
| "str (ValueError m) = m"
| "str (AttributeError m) = m"
| "str (KeyError m) = m"
| "str (TypeError m) = m"
| "str (OtherException m) = m"

text \<open>The two path strings that \<^verbatim>\<open>load\<close> builds from the output root.\<close>

definition partition_path :: "string \<Rightarrow> string \<Rightarrow> string \<Rightarrow> string" where
  "partition_path OUTPUT_PATH base_currency logical_date_str =
     OUTPUT_PATH @ ''/base_currency='' @ base_currency @ ''/date='' @ logical_date_str"

definition output_file :: "string \<Rightarrow> string \<Rightarrow> string \<Rightarrow> string" where
  "output_file OUTPUT_PATH base_currency logical_date_str =
     partition_path OUTPUT_PATH base_currency logical_date_str @ ''/data.parquet''"

text \<open>
  \<^verbatim>\<open>df.to_parquet(output_file, index=False, engine="pyarrow", compression="snappy",
  storage_options=...)\<close>: the write raises (\<open>fault\<close>), or the object of that name is
  created or replaced. What a failed write leaves in the bucket is not modelled.
\<close>

definition to_parquet ::
  "exn option \<Rightarrow> 'd bucket \<Rightarrow> 'd dataframe \<Rightarrow> string \<Rightarrow> 'c \<Rightarrow> exn + 'd bucket" where
  "to_parquet fault gcs df path token =
     (case fault of
        Some e \<Rightarrow> Inl e
      | None \<Rightarrow> Inr (gcs(path \<mapsto> Parquet ''snappy'' df)))"

text \<open>
  \<^verbatim>\<open>load(df, logical_date_str, base_currency)\<close>. \<open>get_credentials\<close> is what the
  \<^verbatim>\<open>gcp_default\<close> hook does, \<open>OUTPUT_PATH\<close> the Airflow variable read at import.
\<close>

definition load ::
  "exn + 'c \<Rightarrow> exn option \<Rightarrow> string \<Rightarrow> 'd dataframe \<Rightarrow> string \<Rightarrow> string \<Rightarrow> 'd bucket
     \<Rightarrow> exn + 'd bucket" where
  "load get_credentials fault OUTPUT_PATH df logical_date_str base_currency gcs =
     (case get_credentials of
        Inl e \<Rightarrow> Inl (AirflowException (''Failed to authenticate with GCP: '' @ str e))
      | Inr credentials \<Rightarrow>
          (case to_parquet fault gcs df
                  (output_file OUTPUT_PATH base_currency logical_date_str) credentials of
             Inl e \<Rightarrow> Inl (AirflowException (''Failed to write to GCS: '' @ str e))
           | Inr gcs' \<Rightarrow> Inr gcs'))"

section \<open>The DAG\<close>

text \<open>
  What the scheduler does is recorded as a list of events: a try of a task, with the
  task's name and the number of the try, and a wait of so many seconds.
\<close>

datatype event = Run string nat | Wait nat

text \<open>
  Airflow's handling of \<^verbatim>\<open>retries\<close> and \<^verbatim>\<open>retry_delay\<close>: a task is tried once; each
  time a try raises and retries are left, the scheduler waits \<^verbatim>\<open>retry_delay\<close> and
  tries again, so a task with \<^verbatim>\<open>retries=r\<close> is tried at most \<open>r + 1\<close> times. The
  body of the task may behave differently at each try.
\<close>

fun run_task ::
  "string \<Rightarrow> nat \<Rightarrow> nat \<Rightarrow> (nat \<Rightarrow> exn + 'a) \<Rightarrow> nat \<Rightarrow> event list \<times> (exn + 'a)" where
  "run_task name 0 retry_delay body try_number = ([Run name try_number], body try_number)"
| "run_task name (Suc retries) retry_delay body try_number =
     (case body try_number of
        Inr v \<Rightarrow> ([Run name try_number], Inr v)
      | Inl e \<Rightarrow>
          (case run_task name retries retry_delay body (Suc try_number) of
             (trace, result) \<Rightarrow> (Run name try_number # Wait retry_delay # trace, result)))"

text \<open>
  The Airflow variables read at import and the constant of \<^verbatim>\<open>helpers.constants\<close>.
\<close>

record config =
  API_URL :: string
  BASE_CURRENCY :: string
  OUTPUT_PATH :: string

text \<open>
  The world outside one run of the DAG: the network at each try of \<^verbatim>\<open>extract\<close>, the
  credential hook, and the fault of the write, if any.
\<close>

record 'c env =
  requests_get :: "nat \<Rightarrow> string \<Rightarrow> (string \<times> string) list \<Rightarrow> exn + response"
  get_credentials :: "exn + 'c"
  write_fault :: "exn option"

text \<open>
  \<^verbatim>\<open>currency_rates_etl_dag\<close> for the run of logical date \<open>ds\<close>, from the bucket
  before the run to the events of the run and its outcome. \<^verbatim>\<open>extract\<close> is declared
  with \<^verbatim>\<open>retries=5\<close> and a delay of one minute; \<^verbatim>\<open>transform\<close> and \<^verbatim>\<open>load\<close> take
  \<^verbatim>\<open>retries: 0\<close> from \<^verbatim>\<open>default_args\<close>. A task runs only when the task before it
  has succeeded.
\<close>

definition currency_rates_etl_dag ::
  "'c env \<Rightarrow> config \<Rightarrow> (json \<Rightarrow> exn + 'd) \<Rightarrow> string \<Rightarrow> 'd bucket
     \<Rightarrow> event list \<times> (exn + 'd bucket)" where
  "currency_rates_etl_dag world cfg to_datetime ds gcs =
     (case run_task ''extract'' 5 60
             (\<lambda>n. extract_task (requests_get world n) (API_URL cfg) ds (BASE_CURRENCY cfg)) 1 of
        (t1, Inl e) \<Rightarrow> (t1, Inl e)
      | (t1, Inr json_data) \<Rightarrow>
          (case run_task ''transform'' 0 0
                  (\<lambda>n. transform to_datetime json_data ds (BASE_CURRENCY cfg)) 1 of
             (t2, Inl e) \<Rightarrow> (t1 @ t2, Inl e)
           | (t2, Inr df) \<Rightarrow>
               (case run_task ''load'' 0 0
                       (\<lambda>n. load (get_credentials world) (write_fault world) (OUTPUT_PATH cfg)
                               df ds (BASE_CURRENCY cfg) gcs) 1 of
                  (t3, r) \<Rightarrow> (t1 @ t2 @ t3, r))))"

text \<open>How often a task was tried in a run.\<close>

definition tries :: "string \<Rightarrow> event list \<Rightarrow> nat" where
  "tries name trace =
     length (filter (\<lambda>ev. case ev of Run t _ \<Rightarrow> t = name | Wait _ \<Rightarrow> False) trace)"

text \<open>
  The table \<^verbatim>\<open>transform\<close> returns for the timestamp \<open>ts\<close>, the base currency and the
  items of \<^verbatim>\<open>rates\<close>, written out column by column.
\<close>

definition rate_table :: "'d \<Rightarrow> string \<Rightarrow> (string \<times> json) list \<Rightarrow> 'd dataframe" where
  "rate_table ts base items =
     [(''date'', replicate (length items) (Date ts)),
      (''base_currency'', replicate (length items) (Str base)),
      (''currency_code'', map (\<lambda>kv. Str (fst kv)) items),
      (''rate'', map (\<lambda>kv. Val (snd kv)) items)]"

text \<open>The cells of one column of a frame, if the frame has the column.\<close>

definition column :: "'d dataframe \<Rightarrow> string \<Rightarrow> 'd cell list option" where
  "column df name = map_of df name"

section \<open>Sample runs\<close>

text \<open>
  The response of the end-to-end scenario, a rate service that answers every request
  with status 200 and a given body, a network on which every request times out, and a
  configuration. Credentials are available and the write succeeds in both worlds.
\<close>

definition sample_rates :: "(string \<times> json) list" where
  "sample_rates = [(''EUR'', JFloat 0.92), (''GBP'', JFloat 0.79)]"

definition sample_data :: "(string \<times> json) list" where
  "sample_data = [(''date'', JStr ''2025-07-01''), (''rates'', JDict sample_rates)]"

definition answering :: "(string \<times> json) list \<Rightarrow> unit env" where
  "answering body =
     \<lparr>requests_get = (\<lambda>n endpoint params.
        Inr \<lparr>status_code = 200, reason = ''OK'', url = endpoint, json_body = Inr (JDict body)\<rparr>),
      get_credentials = Inr (),
      write_fault = None\<rparr>"

definition timing_out :: "unit env" where
  "timing_out =
     \<lparr>requests_get = (\<lambda>n endpoint params. Inl (RequestException ''Read timed out.'')),
      get_credentials = Inr (),
      write_fault = None\<rparr>"

definition sample_config :: config where
  "sample_config =
     \<lparr>API_URL = ''https://api.frankfurter.app'', BASE_CURRENCY = ''USD'',
      OUTPUT_PATH = ''gs://rates''\<rparr>"

section \<open>Auxiliary facts\<close>

lemma transform_table:
  assumes "py_get data ''rates'' (JDict []) = JDict items" and "items \<noteq> []"
    and "to_datetime (py_get data ''date'' (JStr ld)) = Inr ts"
  shows "transform to_datetime data ld base = Inr (rate_table ts base items)"
  using assms
  by (simp add: transform_def DataFrame_def setitem_def nrows_def final_columns_def rate_table_def)

lemma transform_date_error:
  assumes "py_get data ''rates'' (JDict []) = JDict items" and "items \<noteq> []"
    and "to_datetime (py_get data ''date'' (JStr ld)) = Inl e"
  shows "transform to_datetime data ld base = Inl e"
  using assms by (simp add: transform_def)

lemma rows_rate_table:
  "rows (rate_table ts base items) =
     map (\<lambda>kv. [Date ts, Str base, Str (fst kv), Val (snd kv)]) items"
  by (auto simp: rows_def rate_table_def nrows_def intro!: nth_equalityI)

lemma columns_rate_table: "columns (rate_table ts base items) = final_columns"
  by (simp add: columns_def rate_table_def final_columns_def)

lemma column_date_rate_table:
  "column (rate_table ts base items) ''date'' = Some (replicate (length items) (Date ts))"
  by (simp add: column_def rate_table_def)


lemma transform_Inr_cases:
  assumes "transform to_datetime data ld base = Inr df"
  obtains items ts where "py_get data ''rates'' (JDict []) = JDict items" "items \<noteq> []"
    "to_datetime (py_get data ''date'' (JStr ld)) = Inr ts" "df = rate_table ts base items"
proof -
  let ?r = "py_get data ''rates'' (JDict [])"
  from assms have t: "truthy ?r"
    by (auto simp: transform_def Let_def split: if_splits)
  from assms t obtain items where r: "?r = JDict items"
    by (cases ?r) (auto simp: transform_def Let_def)
  with t have ne: "items \<noteq> []" by simp
  from assms r ne obtain ts where d: "to_datetime (py_get data ''date'' (JStr ld)) = Inr ts"
    by (cases "to_datetime (py_get data ''date'' (JStr ld))") (auto simp: transform_date_error)
  have "transform to_datetime data ld base = Inr (rate_table ts base items)"
    using r ne d by (rule transform_table)
  with assms have "df = rate_table ts base items" by simp
  with r ne d that show thesis by blast
qed

lemma run_task_all_fail:
  assumes "\<And>n. body n = Inl (err n)"
  shows "run_task name r delay body k =
           (concat (map (\<lambda>i. [Run name (k + i), Wait delay]) [0..<r]) @ [Run name (k + r)],
            Inl (err (k + r)))"
proof (induction r arbitrary: k)
  case 0
  then show ?case by (simp add: assms)
next
  case (Suc r)
  have "[0..<Suc r] = 0 # map Suc [0..<r]"
    by (simp add: upt_conv_Cons map_Suc_upt del: upt_Suc)
  then show ?case using Suc [of "Suc k"]
    by (simp add: assms comp_def del: upt_Suc)
qed

lemma run_extract_all_fail:
  assumes "\<And>n. body n = Inl (err n)"
  shows "run_task name 5 60 body 1 =
           ([Run name 1, Wait 60, Run name 2, Wait 60, Run name 3, Wait 60,
             Run name 4, Wait 60, Run name 5, Wait 60, Run name 6], Inl (err 6))"
proof -
  have "run_task name (Suc (Suc (Suc (Suc (Suc 0))))) 60 body (Suc 0) =
           ([Run name 1, Wait 60, Run name 2, Wait 60, Run name 3, Wait 60,
             Run name 4, Wait 60, Run name 5, Wait 60, Run name 6], Inl (err 6))"
    by (simp add: assms eval_nat_numeral)
  then show ?thesis by (simp add: eval_nat_numeral)
qed

lemma load_succeeds_iff:
  "load creds fault outp df ds base g = Inr g' \<longleftrightarrow>
     (\<exists>c. creds = Inr c) \<and> fault = None \<and> g' = g(output_file outp base ds \<mapsto> Parquet ''snappy'' df)"
  by (auto simp: load_def to_parquet_def split: sum.splits option.splits)

lemma dag_succeeds_iff:
  "snd (currency_rates_etl_dag world cfg td ds g) = Inr g' \<longleftrightarrow>
     (\<exists>t1 data df.
        run_task ''extract'' 5 60
          (\<lambda>n. extract_task (requests_get world n) (API_URL cfg) ds (BASE_CURRENCY cfg)) 1
          = (t1, Inr data)
      \<and> transform td data ds (BASE_CURRENCY cfg) = Inr df
      \<and> load (get_credentials world) (write_fault world) (OUTPUT_PATH cfg) df ds
            (BASE_CURRENCY cfg) g = Inr g')"
  by (auto simp: currency_rates_etl_dag_def split: prod.splits sum.splits)

lemma dag_after_extract:
  assumes "run_task ''extract'' 5 60
          (\<lambda>n. extract_task (requests_get world n) (API_URL cfg) ds (BASE_CURRENCY cfg)) 1
          = (t1, Inr data)"
    and "transform td data ds (BASE_CURRENCY cfg) = Inr df"
  shows "currency_rates_etl_dag world cfg td ds g =
           (t1 @ [Run ''transform'' 1, Run ''load'' 1],
            load (get_credentials world) (write_fault world) (OUTPUT_PATH cfg) df ds
              (BASE_CURRENCY cfg) g)"
  using assms by (simp add: currency_rates_etl_dag_def)

lemma iso_2025_07_01: "iso_to_datetime (JStr ''2025-07-01'') = Inr (Timestamp 2025 7 1)"
  by (simp add: iso_to_datetime_def parse_iso_date_def digit_def days_in_month_def)

lemma iso_garbage:
  "iso_to_datetime (JStr ''garbage'')
     = Inl (ValueError ''Unknown datetime string format, unable to parse: garbage'')"
  by (simp add: iso_to_datetime_def parse_iso_date_def)

section \<open>The column contract of transform\<close>




section \<open>Empty rates\<close>

text \<open>
  C3. When the \<^verbatim>\<open>rates\<close> of the response is the empty mapping (or the response has
  no \<^verbatim>\<open>rates\<close> at all, which \<^verbatim>\<open>data.get("rates", {})\<close> reads as the empty mapping),
  \<open>transform\<close> raises the validation error \<^verbatim>\<open>ValueError\<close> and returns no table,
  whatever the fallback date, the base currency and \<^verbatim>\<open>pd.to_datetime\<close> are.
\<close>

theorem transform_empty_rates:
  assumes "py_get data ''rates'' (JDict []) = JDict []"
  shows "transform to_datetime data logical_date_str base_currency
           = Inl (ValueError (''No rate data available for '' @ logical_date_str))"
  using assms by (simp add: transform_def)

theorem transform_empty_rates_witness:
  "py_get [(''date'', JStr ''2025-07-01''), (''rates'', JDict [])] ''rates'' (JDict []) = JDict []
   \<and> transform iso_to_datetime [(''date'', JStr ''2025-07-01''), (''rates'', JDict [])]
         ''2025-07-01'' ''USD''
       = Inl (ValueError ''No rate data available for 2025-07-01'')"
proof -
  have h: "py_get [(''date'', JStr ''2025-07-01''), (''rates'', JDict [])] ''rates'' (JDict [])
             = JDict []"
    by (simp add: py_get_def)
  from transform_empty_rates
         [where to_datetime = iso_to_datetime and logical_date_str = "''2025-07-01''"
            and base_currency = "''USD''", OF h] h
  show ?thesis by simp
qed

section \<open>The date stamped on the records\<close>

text \<open>
  C4, as amended. For a response with a non-empty \<^verbatim>\<open>rates\<close> mapping: when the
  response has a \<^verbatim>\<open>date\<close> field and \<^verbatim>\<open>pd.to_datetime\<close> reads it, every record is
  stamped with that date; when it has a \<^verbatim>\<open>date\<close> field that \<^verbatim>\<open>pd.to_datetime\<close>
  refuses, \<open>transform\<close> raises that error and the fallback is not used; when it has no
  \<^verbatim>\<open>date\<close> field, every record is stamped with the fallback date.
\<close>

theorem transform_resolved_date:
  assumes "py_get data ''rates'' (JDict []) = JDict items" and "items \<noteq> []"
  shows "(\<forall>v ts. map_of data ''date'' = Some v \<and> to_datetime v = Inr ts \<longrightarrow>
            (\<exists>df. transform to_datetime data logical_date_str base_currency = Inr df
               \<and> length (rows df) = length items
               \<and> column df ''date'' = Some (replicate (length items) (Date ts))))
       \<and> (\<forall>v e. map_of data ''date'' = Some v \<and> to_datetime v = Inl e \<longrightarrow>
            transform to_datetime data logical_date_str base_currency = Inl e)
       \<and> (\<forall>ts. map_of data ''date'' = None \<and> to_datetime (JStr logical_date_str) = Inr ts \<longrightarrow>
            (\<exists>df. transform to_datetime data logical_date_str base_currency = Inr df
               \<and> length (rows df) = length items
               \<and> column df ''date'' = Some (replicate (length items) (Date ts))))"
proof (intro conjI allI impI)
  fix v ts
  assume "map_of data ''date'' = Some v \<and> to_datetime v = Inr ts"
  then have "to_datetime (py_get data ''date'' (JStr logical_date_str)) = Inr ts"
    by (simp add: py_get_def)
  with assms have "transform to_datetime data logical_date_str base_currency
                     = Inr (rate_table ts base_currency items)"
    by (rule transform_table)
  then show "\<exists>df. transform to_datetime data logical_date_str base_currency = Inr df
               \<and> length (rows df) = length items
               \<and> column df ''date'' = Some (replicate (length items) (Date ts))"
    by (simp add: rows_rate_table column_date_rate_table)
next
  fix v e
  assume "map_of data ''date'' = Some v \<and> to_datetime v = Inl e"
  then have "to_datetime (py_get data ''date'' (JStr logical_date_str)) = Inl e"
    by (simp add: py_get_def)
  with assms show "transform to_datetime data logical_date_str base_currency = Inl e"
    by (rule transform_date_error)
next
  fix ts
  assume "map_of data ''date'' = None \<and> to_datetime (JStr logical_date_str) = Inr ts"
  then have "to_datetime (py_get data ''date'' (JStr logical_date_str)) = Inr ts"
    by (simp add: py_get_def)
  with assms have "transform to_datetime data logical_date_str base_currency
                     = Inr (rate_table ts base_currency items)"
    by (rule transform_table)
  then show "\<exists>df. transform to_datetime data logical_date_str base_currency = Inr df
               \<and> length (rows df) = length items
               \<and> column df ''date'' = Some (replicate (length items) (Date ts))"
    by (simp add: rows_rate_table column_date_rate_table)
qed

lemma iso_2025_06_30: "iso_to_datetime (JStr ''2025-06-30'') = Inr (Timestamp 2025 6 30)"
  by (simp add: iso_to_datetime_def parse_iso_date_def digit_def days_in_month_def)

theorem transform_resolved_date_witness:
  "(\<exists>df. transform iso_to_datetime
            [(''date'', JStr ''2025-06-30''), (''rates'', JDict sample_rates)]
            ''2025-07-01'' ''USD'' = Inr df
        \<and> length (rows df) = 2
        \<and> column df ''date'' = Some [Date (Timestamp 2025 6 30), Date (Timestamp 2025 6 30)])
   \<and> transform iso_to_datetime
            [(''date'', JStr ''garbage''), (''rates'', JDict sample_rates)]
            ''2025-07-01'' ''USD''
       = Inl (ValueError ''Unknown datetime string format, unable to parse: garbage'')
   \<and> (\<exists>df. transform iso_to_datetime [(''rates'', JDict sample_rates)]
            ''2025-07-01'' ''USD'' = Inr df
        \<and> length (rows df) = 2
        \<and> column df ''date'' = Some [Date (Timestamp 2025 7 1), Date (Timestamp 2025 7 1)])"
proof -
  have ne: "sample_rates \<noteq> []" and len: "length sample_rates = 2"
    by (simp_all add: sample_rates_def)
  have r1: "py_get [(''date'', JStr ''2025-06-30''), (''rates'', JDict sample_rates)]
              ''rates'' (JDict []) = JDict sample_rates"
    and r2: "py_get [(''date'', JStr ''garbage''), (''rates'', JDict sample_rates)]
              ''rates'' (JDict []) = JDict sample_rates"
    and r3: "py_get [(''rates'', JDict sample_rates)] ''rates'' (JDict []) = JDict sample_rates"
    by (simp_all add: py_get_def)
  have a: "\<exists>df. transform iso_to_datetime
            [(''date'', JStr ''2025-06-30''), (''rates'', JDict sample_rates)]
            ''2025-07-01'' ''USD'' = Inr df
        \<and> length (rows df) = 2
        \<and> column df ''date'' = Some [Date (Timestamp 2025 6 30), Date (Timestamp 2025 6 30)]"
    using transform_resolved_date
            [where to_datetime = iso_to_datetime and logical_date_str = "''2025-07-01''"
               and base_currency = "''USD''", OF r1 ne]
    by (simp add: iso_2025_06_30 len numeral_2_eq_2)
  have b: "transform iso_to_datetime
            [(''date'', JStr ''garbage''), (''rates'', JDict sample_rates)]
            ''2025-07-01'' ''USD''
       = Inl (ValueError ''Unknown datetime string format, unable to parse: garbage'')"
    using transform_resolved_date
            [where to_datetime = iso_to_datetime and logical_date_str = "''2025-07-01''"
               and base_currency = "''USD''", OF r2 ne]
    by (simp add: iso_garbage)
  have c: "\<exists>df. transform iso_to_datetime [(''rates'', JDict sample_rates)]
            ''2025-07-01'' ''USD'' = Inr df
        \<and> length (rows df) = 2
        \<and> column df ''date'' = Some [Date (Timestamp 2025 7 1), Date (Timestamp 2025 7 1)]"
    using transform_resolved_date
            [where to_datetime = iso_to_datetime and logical_date_str = "''2025-07-01''"
               and base_currency = "''USD''", OF r3 ne]
    by (simp add: iso_2025_07_01 len numeral_2_eq_2)
  from a b c show ?thesis by blast
qed

text \<open>
  The claim as it was stated lets the fallback stand in for a date that is present but
  cannot be read. Here the fallback \<^verbatim>\<open>2025-07-01\<close> is a date pandas reads, the
  \<^verbatim>\<open>date\<close> of the response is not, and \<open>transform\<close> raises instead of returning
  records stamped with the fallback.
\<close>

theorem transform_no_fallback_counterexample:
  "iso_to_datetime (JStr ''2025-07-01'') = Inr (Timestamp 2025 7 1)
   \<and> transform iso_to_datetime
         [(''date'', JStr ''garbage''), (''rates'', JDict [(''GBP'', JFloat 0.79)])]
         ''2025-07-01'' ''USD''
       = Inl (ValueError ''Unknown datetime string format, unable to parse: garbage'')"
  by (simp add: transform_def py_get_def iso_garbage iso_2025_07_01)

section \<open>The fallback date\<close>

text \<open>
  C5. For a response with a non-empty \<^verbatim>\<open>rates\<close> mapping and no \<^verbatim>\<open>date\<close> field, the
  date on every record that \<open>transform\<close> returns is the logical date passed as the
  fallback (as the timestamp \<^verbatim>\<open>pd.to_datetime\<close> makes of it). A table is returned
  whenever the logical date is one that \<^verbatim>\<open>pd.to_datetime\<close> reads, and a table that
  is returned carries that date in every row.
\<close>

theorem transform_date_fallback:
  assumes "py_get data ''rates'' (JDict []) = JDict items" and "items \<noteq> []"
    and "map_of data ''date'' = None"
  shows "(\<forall>ts. to_datetime (JStr logical_date_str) = Inr ts \<longrightarrow>
            (\<exists>df. transform to_datetime data logical_date_str base_currency = Inr df
               \<and> length (rows df) = length items
               \<and> column df ''date'' = Some (replicate (length items) (Date ts))))
       \<and> (\<forall>df. transform to_datetime data logical_date_str base_currency = Inr df \<longrightarrow>
            (\<exists>ts. to_datetime (JStr logical_date_str) = Inr ts
               \<and> length (rows df) = length items
               \<and> column df ''date'' = Some (replicate (length items) (Date ts))))"
proof -
  have g: "py_get data ''date'' (JStr logical_date_str) = JStr logical_date_str"
    using assms(3) by (simp add: py_get_def)
  have fwd: "transform to_datetime data logical_date_str base_currency
               = Inr (rate_table ts base_currency items)"
    if "to_datetime (JStr logical_date_str) = Inr ts" for ts
  proof -
    from that g have "to_datetime (py_get data ''date'' (JStr logical_date_str)) = Inr ts"
      by simp
    with assms(1,2) show ?thesis by (rule transform_table)
  qed
  have bwd: "\<exists>ts. to_datetime (JStr logical_date_str) = Inr ts
               \<and> length (rows df) = length items
               \<and> column df ''date'' = Some (replicate (length items) (Date ts))"
    if "transform to_datetime data logical_date_str base_currency = Inr df" for df
  proof (cases "to_datetime (JStr logical_date_str)")
    case (Inl e)
    with g have "to_datetime (py_get data ''date'' (JStr logical_date_str)) = Inl e" by simp
    with assms(1,2) have "transform to_datetime data logical_date_str base_currency = Inl e"
      by (rule transform_date_error)
    with that show ?thesis by simp
  next
    case (Inr ts)
    from fwd [OF Inr] that have "df = rate_table ts base_currency items" by simp
    with Inr show ?thesis by (simp add: rows_rate_table column_date_rate_table)
  qed
  from fwd bwd show ?thesis
    by (auto simp: rows_rate_table column_date_rate_table)
qed

theorem transform_date_fallback_witness:
  "map_of [(''rates'', JDict sample_rates)] ''date'' = None
   \<and> (\<exists>df. transform iso_to_datetime [(''rates'', JDict sample_rates)]
            ''2025-06-30'' ''USD'' = Inr df
        \<and> length (rows df) = 2
        \<and> column df ''date'' = Some [Date (Timestamp 2025 6 30), Date (Timestamp 2025 6 30)])"
proof -
  have ne: "sample_rates \<noteq> []" and len: "length sample_rates = 2"
    by (simp_all add: sample_rates_def)
  have r: "py_get [(''rates'', JDict sample_rates)] ''rates'' (JDict []) = JDict sample_rates"
    by (simp add: py_get_def)
  have d: "map_of [(''rates'', JDict sample_rates)] ''date'' = None" by simp
  from transform_date_fallback
         [where to_datetime = iso_to_datetime and logical_date_str = "''2025-06-30''"
            and base_currency = "''USD''", OF r ne d] d
  show ?thesis by (simp add: iso_2025_06_30 len numeral_2_eq_2)
qed

section \<open>The partition path\<close>

text \<open>
  C6. The path of the partition file is a function of the output root, the base currency
  and the date alone: it is the output root followed by
  \<^verbatim>\<open>/base_currency=<base_currency>/date=<date>/data.parquet\<close>; for \<^verbatim>\<open>USD\<close> and
  \<^verbatim>\<open>2025-07-01\<close> that is \<^verbatim>\<open><output_root>/base_currency=USD/date=2025-07-01/data.parquet\<close>;
  and whatever the bucket holds before and whatever the table is, a \<open>load\<close> that
  succeeds writes at exactly that path.
\<close>

theorem partition_path_deterministic:
  "output_file outp base_currency logical_date_str
     = outp @ ''/base_currency='' @ base_currency @ ''/date='' @ logical_date_str @ ''/data.parquet''
   \<and> output_file outp ''USD'' ''2025-07-01''
     = outp @ ''/base_currency=USD/date=2025-07-01/data.parquet''
   \<and> load (Inr credentials) None outp df logical_date_str base_currency gcs
     = Inr (gcs(output_file outp base_currency logical_date_str \<mapsto> Parquet ''snappy'' df))"
  by (simp add: output_file_def partition_path_def load_def to_parquet_def)

section \<open>Failures of the fetch\<close>

text \<open>
  C9. Whenever the request fails in transport (\<^verbatim>\<open>requests.get\<close> raises a
  \<^verbatim>\<open>RequestException\<close>: a timeout, a connection failure) or is answered with a status
  from 400 to 599, client error or server error alike, \<open>extract_task\<close> returns no
  value and signals one and the same kind of failure, an \<^verbatim>\<open>AirflowException\<close> whose
  message starts with \<^verbatim>\<open>API request failed:\<close>.
\<close>

theorem extract_failure_uniform:
  assumes "(\<exists>m. http_get (api @ ''/'' @ logical_date_str) [(''base'', base_currency)]
                 = Inl (RequestException m))
         \<or> (\<exists>r. http_get (api @ ''/'' @ logical_date_str) [(''base'', base_currency)] = Inr r
                 \<and> 400 \<le> status_code r \<and> status_code r < 600)"
  shows "\<exists>msg. extract_task http_get api logical_date_str base_currency
                 = Inl (AirflowException (''API request failed: '' @ msg))"
  using assms
proof (elim disjE exE conjE)
  fix m
  assume "http_get (api @ ''/'' @ logical_date_str) [(''base'', base_currency)]
            = Inl (RequestException m)"
  then show ?thesis
    by (simp add: extract_task_def except_RequestException_def)
next
  fix r
  assume g: "http_get (api @ ''/'' @ logical_date_str) [(''base'', base_currency)] = Inr r"
    and lo: "400 \<le> status_code r" and hi: "status_code r < 600"
  from lo hi obtain m where "raise_for_status r = Inl (RequestException m)"
    by (cases "status_code r < 500") (simp_all add: raise_for_status_def)
  with g show ?thesis
    by (simp add: extract_task_def except_RequestException_def)
qed

theorem extract_failure_uniform_witness:
  "(\<exists>msg. extract_task (\<lambda>endpoint params. Inl (RequestException ''Read timed out.''))
             ''https://api.frankfurter.app'' ''2025-07-01'' ''USD''
           = Inl (AirflowException (''API request failed: '' @ msg)))
   \<and> (\<exists>msg. extract_task
             (\<lambda>endpoint params. Inr \<lparr>status_code = 404, reason = ''Not Found'', url = endpoint,
                                      json_body = Inr (JDict [])\<rparr>)
             ''https://api.frankfurter.app'' ''2025-07-01'' ''USD''
           = Inl (AirflowException (''API request failed: '' @ msg)))
   \<and> (\<exists>msg. extract_task
             (\<lambda>endpoint params. Inr \<lparr>status_code = 503, reason = ''Service Unavailable'',
                                      url = endpoint, json_body = Inl (ValueError ''no JSON'')\<rparr>)
             ''https://api.frankfurter.app'' ''2025-07-01'' ''USD''
           = Inl (AirflowException (''API request failed: '' @ msg)))"
proof (intro conjI)
  show "\<exists>msg. extract_task (\<lambda>endpoint params. Inl (RequestException ''Read timed out.''))
             ''https://api.frankfurter.app'' ''2025-07-01'' ''USD''
           = Inl (AirflowException (''API request failed: '' @ msg))"
    by (rule extract_failure_uniform) simp
  show "\<exists>msg. extract_task
             (\<lambda>endpoint params. Inr \<lparr>status_code = 404, reason = ''Not Found'', url = endpoint,
                                      json_body = Inr (JDict [])\<rparr>)
             ''https://api.frankfurter.app'' ''2025-07-01'' ''USD''
           = Inl (AirflowException (''API request failed: '' @ msg))"
    by (rule extract_failure_uniform) simp
  show "\<exists>msg. extract_task
             (\<lambda>endpoint params. Inr \<lparr>status_code = 503, reason = ''Service Unavailable'',
                                      url = endpoint, json_body = Inl (ValueError ''no JSON'')\<rparr>)
             ''https://api.frankfurter.app'' ''2025-07-01'' ''USD''
           = Inl (AirflowException (''API request failed: '' @ msg))"
    by (rule extract_failure_uniform) simp
qed

section \<open>Runs of the DAG\<close>

lemma run_task_first_success:
  "body k = Inr v \<Longrightarrow> run_task name r delay body k = ([Run name k], Inr v)"
  by (cases r) simp_all

lemma extract_answering:
  "extract_task (requests_get (answering body) n) api ds base = Inr body"
  by (simp add: extract_task_def answering_def raise_for_status_def)

lemma extract_timing_out:
  "extract_task (requests_get timing_out n) api ds base
     = Inl (AirflowException ''API request failed: Read timed out.'')"
  by (simp add: extract_task_def timing_out_def except_RequestException_def)

lemma dag_answering:
  assumes "py_get body ''rates'' (JDict []) = JDict items" and "items \<noteq> []"
    and "to_datetime (py_get body ''date'' (JStr ds)) = Inr ts"
  shows "currency_rates_etl_dag (answering body) cfg to_datetime ds g =
           ([Run ''extract'' 1, Run ''transform'' 1, Run ''load'' 1],
            Inr (g(output_file (OUTPUT_PATH cfg) (BASE_CURRENCY cfg) ds
                     \<mapsto> Parquet ''snappy'' (rate_table ts (BASE_CURRENCY cfg) items))))"
proof -
  have e: "run_task ''extract'' 5 60
             (\<lambda>n. extract_task (requests_get (answering body) n) (API_URL cfg) ds
                     (BASE_CURRENCY cfg)) 1
           = ([Run ''extract'' 1], Inr body)"
    by (rule run_task_first_success) (rule extract_answering)
  have t: "transform to_datetime body ds (BASE_CURRENCY cfg)
             = Inr (rate_table ts (BASE_CURRENCY cfg) items)"
    using assms by (rule transform_table)
  have l: "load (get_credentials (answering body)) (write_fault (answering body))
             (OUTPUT_PATH cfg) df ds (BASE_CURRENCY cfg) g
           = Inr (g(output_file (OUTPUT_PATH cfg) (BASE_CURRENCY cfg) ds \<mapsto> Parquet ''snappy'' df))"
    for df :: "'a dataframe"
    by (simp add: load_def to_parquet_def answering_def)
  show ?thesis
    by (simp add: dag_after_extract [OF e t] l)
qed

lemma dag_extract_failed:
  assumes "run_task ''extract'' 5 60
          (\<lambda>n. extract_task (requests_get world n) (API_URL cfg) ds (BASE_CURRENCY cfg)) 1
          = (t1, Inl e)"
  shows "currency_rates_etl_dag world cfg td ds g = (t1, Inl e)"
  using assms by (simp add: currency_rates_etl_dag_def)

lemma tries_simps:
  "tries name [] = 0"
  "tries name (Run t k # evs) = (if t = name then Suc (tries name evs) else tries name evs)"
  "tries name (Wait d # evs) = tries name evs"
  by (simp_all add: tries_def)

section \<open>Exhausted retries\<close>

text \<open>
  C2, as amended. If \<open>extract_task\<close> fails at every try, the run makes exactly six
  calls of it, the first try and the five retries that \<^verbatim>\<open>retries=5\<close> grants, waits the
  fixed delay of one minute (60 seconds) before each retry, and then fails with the
  error of the last try; \<open>transform\<close> and \<open>load\<close> are never run.
\<close>

theorem extract_retry_exhaustion:
  assumes "\<forall>n. \<exists>e. extract_task (requests_get world n) (API_URL cfg) ds (BASE_CURRENCY cfg) = Inl e"
  shows "(\<exists>e. currency_rates_etl_dag world cfg to_datetime ds gcs =
            ([Run ''extract'' 1, Wait 60, Run ''extract'' 2, Wait 60, Run ''extract'' 3, Wait 60,
              Run ''extract'' 4, Wait 60, Run ''extract'' 5, Wait 60, Run ''extract'' 6], Inl e))
       \<and> tries ''extract'' (fst (currency_rates_etl_dag world cfg to_datetime ds gcs)) = 6
       \<and> tries ''transform'' (fst (currency_rates_etl_dag world cfg to_datetime ds gcs)) = 0
       \<and> tries ''load'' (fst (currency_rates_etl_dag world cfg to_datetime ds gcs)) = 0"
proof -
  from assms obtain err where
    err: "\<And>n. extract_task (requests_get world n) (API_URL cfg) ds (BASE_CURRENCY cfg) = Inl (err n)"
    by metis
  have r: "run_task ''extract'' 5 60
             (\<lambda>n. extract_task (requests_get world n) (API_URL cfg) ds (BASE_CURRENCY cfg)) 1
           = ([Run ''extract'' 1, Wait 60, Run ''extract'' 2, Wait 60, Run ''extract'' 3, Wait 60,
               Run ''extract'' 4, Wait 60, Run ''extract'' 5, Wait 60, Run ''extract'' 6],
              Inl (err 6))"
    by (rule run_extract_all_fail) (rule err)
  have d: "currency_rates_etl_dag world cfg to_datetime ds gcs
           = ([Run ''extract'' 1, Wait 60, Run ''extract'' 2, Wait 60, Run ''extract'' 3, Wait 60,
               Run ''extract'' 4, Wait 60, Run ''extract'' 5, Wait 60, Run ''extract'' 6],
              Inl (err 6))"
    using r by (rule dag_extract_failed)
  show ?thesis
    by (simp add: d tries_simps)
qed

theorem extract_retry_exhaustion_witness:
  "(\<forall>n. \<exists>e. extract_task (requests_get timing_out n) (API_URL sample_config) ''2025-07-01''
              (BASE_CURRENCY sample_config) = Inl e)
   \<and> (\<exists>e. currency_rates_etl_dag timing_out sample_config iso_to_datetime ''2025-07-01''
              (Map.empty :: timestamp bucket) =
            ([Run ''extract'' 1, Wait 60, Run ''extract'' 2, Wait 60, Run ''extract'' 3, Wait 60,
              Run ''extract'' 4, Wait 60, Run ''extract'' 5, Wait 60, Run ''extract'' 6], Inl e))
   \<and> tries ''transform'' (fst (currency_rates_etl_dag timing_out sample_config iso_to_datetime
         ''2025-07-01'' (Map.empty :: timestamp bucket))) = 0
   \<and> tries ''load'' (fst (currency_rates_etl_dag timing_out sample_config iso_to_datetime
         ''2025-07-01'' (Map.empty :: timestamp bucket))) = 0"
proof -
  have h: "\<forall>n. \<exists>e. extract_task (requests_get timing_out n) (API_URL sample_config) ''2025-07-01''
              (BASE_CURRENCY sample_config) = Inl e"
    by (simp add: extract_timing_out)
  from extract_retry_exhaustion
         [where to_datetime = iso_to_datetime and gcs = "Map.empty :: timestamp bucket", OF h] h
  show ?thesis by simp
qed

text \<open>
  The claim as it was stated counts five calls. On a network where every request times
  out, \<open>extract_task\<close> is called six times.
\<close>

theorem extract_five_calls_counterexample:
  "tries ''extract''
     (fst (currency_rates_etl_dag timing_out sample_config iso_to_datetime ''2025-07-01''
             (Map.empty :: timestamp bucket))) = 6"
proof -
  have "run_task ''extract'' 5 60
          (\<lambda>n. extract_task (requests_get timing_out n) (API_URL sample_config) ''2025-07-01''
                  (BASE_CURRENCY sample_config)) 1
        = ([Run ''extract'' 1, Wait 60, Run ''extract'' 2, Wait 60, Run ''extract'' 3, Wait 60,
            Run ''extract'' 4, Wait 60, Run ''extract'' 5, Wait 60, Run ''extract'' 6],
           Inl (AirflowException ''API request failed: Read timed out.''))"
    by (rule run_extract_all_fail) (rule extract_timing_out)
  then have "currency_rates_etl_dag timing_out sample_config iso_to_datetime ''2025-07-01''
               (Map.empty :: timestamp bucket)
             = ([Run ''extract'' 1, Wait 60, Run ''extract'' 2, Wait 60, Run ''extract'' 3, Wait 60,
                 Run ''extract'' 4, Wait 60, Run ''extract'' 5, Wait 60, Run ''extract'' 6],
                Inl (AirflowException ''API request failed: Read timed out.''))"
    by (rule dag_extract_failed)
  then show ?thesis
    by (simp add: tries_simps)
qed

section \<open>The end-to-end scenario\<close>

text \<open>
  C8. For the response \<^verbatim>\<open>{"date":"2025-07-01","rates":{"EUR":0.92,"GBP":0.79}}\<close>, base
  currency \<^verbatim>\<open>USD\<close> and logical date \<^verbatim>\<open>2025-07-01\<close>, the run tries each task once and
  writes, at \<^verbatim>\<open><output_root>/base_currency=USD/date=2025-07-01/data.parquet\<close>, the
  table whose rows are (2025-07-01, USD, EUR, 0.92) and (2025-07-01, USD, GBP, 0.79).
\<close>

theorem end_to_end_scenario:
  "currency_rates_etl_dag
     (answering [(''date'', JStr ''2025-07-01''),
                 (''rates'', JDict [(''EUR'', JFloat 0.92), (''GBP'', JFloat 0.79)])])
     \<lparr>API_URL = api, BASE_CURRENCY = ''USD'', OUTPUT_PATH = outp\<rparr>
     iso_to_datetime ''2025-07-01'' gcs
   = ([Run ''extract'' 1, Run ''transform'' 1, Run ''load'' 1],
      Inr (gcs(outp @ ''/base_currency=USD/date=2025-07-01/data.parquet'' \<mapsto>
             Parquet ''snappy''
               [(''date'', [Date (Timestamp 2025 7 1), Date (Timestamp 2025 7 1)]),
                (''base_currency'', [Str ''USD'', Str ''USD'']),
                (''currency_code'', [Str ''EUR'', Str ''GBP'']),
                (''rate'', [Val (JFloat 0.92), Val (JFloat 0.79)])])))
   \<and> rows [(''date'', [Date (Timestamp 2025 7 1), Date (Timestamp 2025 7 1)]),
            (''base_currency'', [Str ''USD'', Str ''USD'']),
            (''currency_code'', [Str ''EUR'', Str ''GBP'']),
            (''rate'', [Val (JFloat 0.92), Val (JFloat 0.79)])]
     = [[Date (Timestamp 2025 7 1), Str ''USD'', Str ''EUR'', Val (JFloat 0.92)],
        [Date (Timestamp 2025 7 1), Str ''USD'', Str ''GBP'', Val (JFloat 0.79)]]"
proof -
  let ?body = "[(''date'', JStr ''2025-07-01''),
                (''rates'', JDict [(''EUR'', JFloat 0.92), (''GBP'', JFloat 0.79)])]"
  have r: "py_get ?body ''rates'' (JDict []) = JDict [(''EUR'', JFloat 0.92), (''GBP'', JFloat 0.79)]"
    by (simp add: py_get_def)
  have ne: "[(''EUR'', JFloat 0.92), (''GBP'', JFloat 0.79)] \<noteq> []" by simp
  have d: "iso_to_datetime (py_get ?body ''date'' (JStr ''2025-07-01'')) = Inr (Timestamp 2025 7 1)"
    by (simp add: py_get_def iso_2025_07_01)
  have "currency_rates_etl_dag (answering ?body)
          \<lparr>API_URL = api, BASE_CURRENCY = ''USD'', OUTPUT_PATH = outp\<rparr>
          iso_to_datetime ''2025-07-01'' gcs
        = ([Run ''extract'' 1, Run ''transform'' 1, Run ''load'' 1],
           Inr (gcs(output_file outp ''USD'' ''2025-07-01'' \<mapsto>
                  Parquet ''snappy''
                    (rate_table (Timestamp 2025 7 1) ''USD''
                       [(''EUR'', JFloat 0.92), (''GBP'', JFloat 0.79)]))))"
    using dag_answering [where cfg = "\<lparr>API_URL = api, BASE_CURRENCY = ''USD'', OUTPUT_PATH = outp\<rparr>"
                           and g = gcs and to_datetime = iso_to_datetime
                           and ds = "''2025-07-01''", OF r ne d]
    by simp
  moreover have "output_file outp ''USD'' ''2025-07-01''
                   = outp @ ''/base_currency=USD/date=2025-07-01/data.parquet''"
    by (simp add: output_file_def partition_path_def)
  moreover have "rate_table (Timestamp 2025 7 1) ''USD'' [(''EUR'', JFloat 0.92), (''GBP'', JFloat 0.79)]
                   = [(''date'', [Date (Timestamp 2025 7 1), Date (Timestamp 2025 7 1)]),
                      (''base_currency'', [Str ''USD'', Str ''USD'']),
                      (''currency_code'', [Str ''EUR'', Str ''GBP'']),
                      (''rate'', [Val (JFloat 0.92), Val (JFloat 0.79)])]"
    by (simp add: rate_table_def numeral_2_eq_2)
  moreover have "rows [(''date'', [Date (Timestamp 2025 7 1), Date (Timestamp 2025 7 1)]),
            (''base_currency'', [Str ''USD'', Str ''USD'']),
            (''currency_code'', [Str ''EUR'', Str ''GBP'']),
            (''rate'', [Val (JFloat 0.92), Val (JFloat 0.79)])]
     = [[Date (Timestamp 2025 7 1), Str ''USD'', Str ''EUR'', Val (JFloat 0.92)],
        [Date (Timestamp 2025 7 1), Str ''USD'', Str ''GBP'', Val (JFloat 0.79)]]"
    by (simp add: rows_def nrows_def upt_rec)
  ultimately show ?thesis by simp
qed

section \<open>Idempotence\<close>

text \<open>
  C7. Running the pipeline a second time for the same date and base currency, in the
  same world, changes nothing: the second run succeeds and leaves the bucket exactly as
  the first run left it, so the same rows in the same column order lie at the same
  path. The first run adds that one path to the bucket and stores there a table with the
  columns date, base_currency, currency_code, rate. Any further successful run for that
  date and base currency, even in another world, overwrites the file at that path: it
  adds no object to the bucket and touches no other object.
\<close>

theorem pipeline_idempotent:
  assumes "snd (currency_rates_etl_dag (world :: 'c env) cfg to_datetime ds gcs0) = Inr gcs1"
  shows "snd (currency_rates_etl_dag world cfg to_datetime ds gcs1) = Inr gcs1
       \<and> dom gcs1 = insert (output_file (OUTPUT_PATH cfg) (BASE_CURRENCY cfg) ds) (dom gcs0)
       \<and> (\<exists>df. gcs1 (output_file (OUTPUT_PATH cfg) (BASE_CURRENCY cfg) ds)
                   = Some (Parquet ''snappy'' df)
              \<and> columns df = [''date'', ''base_currency'', ''currency_code'', ''rate''])
       \<and> (\<forall>(world' :: 'c env) gcs2.
             snd (currency_rates_etl_dag world' cfg to_datetime ds gcs1) = Inr gcs2 \<longrightarrow>
               dom gcs2 = dom gcs1
             \<and> (\<forall>p. p \<noteq> output_file (OUTPUT_PATH cfg) (BASE_CURRENCY cfg) ds \<longrightarrow> gcs2 p = gcs1 p))"
proof -
  let ?path = "output_file (OUTPUT_PATH cfg) (BASE_CURRENCY cfg) ds"
  from assms [unfolded dag_succeeds_iff] obtain t1 data df where
    e: "run_task ''extract'' 5 60
          (\<lambda>n. extract_task (requests_get world n) (API_URL cfg) ds (BASE_CURRENCY cfg)) 1
        = (t1, Inr data)"
    and t: "transform to_datetime data ds (BASE_CURRENCY cfg) = Inr df"
    and l: "load (get_credentials world) (write_fault world) (OUTPUT_PATH cfg) df ds
              (BASE_CURRENCY cfg) gcs0 = Inr gcs1"
    by (elim exE conjE)
  from l [unfolded load_succeeds_iff] obtain c where c: "get_credentials world = Inr c" and f: "write_fault world = None"
    and g1: "gcs1 = gcs0(?path \<mapsto> Parquet ''snappy'' df)"
    by (elim exE conjE)
  have "load (get_credentials world) (write_fault world) (OUTPUT_PATH cfg) df ds
          (BASE_CURRENCY cfg) gcs1 = Inr (gcs1(?path \<mapsto> Parquet ''snappy'' df))"
    using c f by (simp add: load_succeeds_iff)
  also have "gcs1(?path \<mapsto> Parquet ''snappy'' df) = gcs1"
    by (simp add: g1)
  finally have again: "snd (currency_rates_etl_dag world cfg to_datetime ds gcs1) = Inr gcs1"
    by (simp add: dag_after_extract [OF e t])
  have dom1: "dom gcs1 = insert ?path (dom gcs0)"
    by (simp add: g1)
  from t have "columns df = final_columns"
    by (rule transform_Inr_cases) (simp add: columns_rate_table)
  then have stored: "\<exists>df. gcs1 ?path = Some (Parquet ''snappy'' df)
                     \<and> columns df = [''date'', ''base_currency'', ''currency_code'', ''rate'']"
    by (simp add: g1 final_columns_def)
  have over: "dom gcs2 = dom gcs1 \<and> (\<forall>p. p \<noteq> ?path \<longrightarrow> gcs2 p = gcs1 p)"
    if "snd (currency_rates_etl_dag world' cfg to_datetime ds gcs1) = Inr gcs2"
    for world' :: "'c env" and gcs2
  proof -
    from that [unfolded dag_succeeds_iff load_succeeds_iff]
    obtain df' where "gcs2 = gcs1(?path \<mapsto> Parquet ''snappy'' df')"
      by (elim exE conjE)
    then show ?thesis by (simp add: g1)
  qed
  show ?thesis
  proof (intro conjI allI impI)
    show "snd (currency_rates_etl_dag world cfg to_datetime ds gcs1) = Inr gcs1" by (rule again)
    show "dom gcs1 = insert ?path (dom gcs0)" by (rule dom1)
    show "\<exists>df. gcs1 ?path = Some (Parquet ''snappy'' df)
            \<and> columns df = [''date'', ''base_currency'', ''currency_code'', ''rate'']"
      by (rule stored)
  next
    fix world' :: "'c env" and gcs2
    assume "snd (currency_rates_etl_dag world' cfg to_datetime ds gcs1) = Inr gcs2"
    then show "dom gcs2 = dom gcs1" by (rule over [THEN conjunct1])
  next
    fix world' :: "'c env" and gcs2 p
    assume "snd (currency_rates_etl_dag world' cfg to_datetime ds gcs1) = Inr gcs2"
      and "p \<noteq> ?path"
    then show "gcs2 p = gcs1 p" using over by blast
  qed
qed

theorem pipeline_idempotent_witness:
  "snd (currency_rates_etl_dag (answering sample_data) sample_config iso_to_datetime
          ''2025-07-01'' Map.empty)
     = Inr [''gs://rates/base_currency=USD/date=2025-07-01/data.parquet'' \<mapsto>
              Parquet ''snappy'' (rate_table (Timestamp 2025 7 1) ''USD'' sample_rates)]
   \<and> snd (currency_rates_etl_dag (answering sample_data) sample_config iso_to_datetime
          ''2025-07-01''
          [''gs://rates/base_currency=USD/date=2025-07-01/data.parquet'' \<mapsto>
              Parquet ''snappy'' (rate_table (Timestamp 2025 7 1) ''USD'' sample_rates)])
     = Inr [''gs://rates/base_currency=USD/date=2025-07-01/data.parquet'' \<mapsto>
              Parquet ''snappy'' (rate_table (Timestamp 2025 7 1) ''USD'' sample_rates)]
   \<and> dom [''gs://rates/base_currency=USD/date=2025-07-01/data.parquet'' \<mapsto>
              Parquet ''snappy'' (rate_table (Timestamp 2025 7 1) ''USD'' sample_rates)]
     = {''gs://rates/base_currency=USD/date=2025-07-01/data.parquet''}
   \<and> snd (currency_rates_etl_dag
            (answering [(''date'', JStr ''2025-07-01''), (''rates'', JDict [(''EUR'', JFloat 0.93)])])
            sample_config iso_to_datetime ''2025-07-01''
            [''gs://rates/base_currency=USD/date=2025-07-01/data.parquet'' \<mapsto>
              Parquet ''snappy'' (rate_table (Timestamp 2025 7 1) ''USD'' sample_rates)])
     = Inr [''gs://rates/base_currency=USD/date=2025-07-01/data.parquet'' \<mapsto>
              Parquet ''snappy'' (rate_table (Timestamp 2025 7 1) ''USD'' [(''EUR'', JFloat 0.93)])]
   \<and> dom [''gs://rates/base_currency=USD/date=2025-07-01/data.parquet'' \<mapsto>
              Parquet ''snappy'' (rate_table (Timestamp 2025 7 1) ''USD'' [(''EUR'', JFloat 0.93)])]
     = dom [''gs://rates/base_currency=USD/date=2025-07-01/data.parquet'' \<mapsto>
              Parquet ''snappy'' (rate_table (Timestamp 2025 7 1) ''USD'' sample_rates)]"
proof -
  let ?path = "''gs://rates/base_currency=USD/date=2025-07-01/data.parquet''"
  let ?G = "[?path \<mapsto> Parquet ''snappy'' (rate_table (Timestamp 2025 7 1) ''USD'' sample_rates)]"
  let ?revised = "[(''date'', JStr ''2025-07-01''), (''rates'', JDict [(''EUR'', JFloat 0.93)])]"
  let ?G2 = "[?path \<mapsto> Parquet ''snappy''
                (rate_table (Timestamp 2025 7 1) ''USD'' [(''EUR'', JFloat 0.93)])]"
  have p: "output_file (OUTPUT_PATH sample_config) (BASE_CURRENCY sample_config) ''2025-07-01''
             = ?path"
    by (simp add: output_file_def partition_path_def sample_config_def)
  have b: "BASE_CURRENCY sample_config = ''USD''" and o: "OUTPUT_PATH sample_config = ''gs://rates''"
    by (simp_all add: sample_config_def)
  have r: "py_get sample_data ''rates'' (JDict []) = JDict sample_rates"
    by (simp add: py_get_def sample_data_def)
  have ne: "sample_rates \<noteq> []" by (simp add: sample_rates_def)
  have d: "iso_to_datetime (py_get sample_data ''date'' (JStr ''2025-07-01''))
             = Inr (Timestamp 2025 7 1)"
    by (simp add: py_get_def sample_data_def iso_2025_07_01)
  have r': "py_get ?revised ''rates'' (JDict []) = JDict [(''EUR'', JFloat 0.93)]"
    by (simp add: py_get_def)
  have ne': "[(''EUR'', JFloat 0.93)] \<noteq> []" by simp
  have d': "iso_to_datetime (py_get ?revised ''date'' (JStr ''2025-07-01''))
             = Inr (Timestamp 2025 7 1)"
    by (simp add: py_get_def iso_2025_07_01)
  have h: "snd (currency_rates_etl_dag (answering sample_data) sample_config iso_to_datetime
                  ''2025-07-01'' Map.empty) = Inr ?G"
    using dag_answering [where to_datetime = iso_to_datetime and ds = "''2025-07-01''"
                           and cfg = sample_config and g = Map.empty, OF r ne d]
    by (simp add: b o output_file_def partition_path_def)
  have h2: "snd (currency_rates_etl_dag (answering ?revised) sample_config iso_to_datetime
                  ''2025-07-01'' ?G) = Inr ?G2"
    using dag_answering [where to_datetime = iso_to_datetime and ds = "''2025-07-01''"
                           and cfg = sample_config and g = ?G, OF r' ne' d']
    by (simp add: b o output_file_def partition_path_def)
  note c = pipeline_idempotent [OF h, unfolded p]
  from c have c1: "snd (currency_rates_etl_dag (answering sample_data) sample_config
                     iso_to_datetime ''2025-07-01'' ?G) = Inr ?G"
    by (rule conjunct1)
  from c have c2: "dom ?G = insert ?path (dom (Map.empty :: timestamp bucket))"
    by (elim conjE)
  from c have "\<forall>(world' :: unit env) gcs2.
             snd (currency_rates_etl_dag world' sample_config iso_to_datetime ''2025-07-01'' ?G)
               = Inr gcs2 \<longrightarrow>
               dom gcs2 = dom ?G \<and> (\<forall>p. p \<noteq> ?path \<longrightarrow> gcs2 p = ?G p)"
    by (elim conjE)
  with h2 have c4: "dom ?G2 = dom ?G" by blast
  from c2 have c2': "dom ?G = {?path}" by simp
  from h c1 c2' h2 c4 show ?thesis by (intro conjI)
qed

section \<open>The date of the path and the date of the records\<close>

text \<open>
  C10. The path written carries the logical date of the run, the records carry the date
  of the response. When \<open>extract\<close> hands over a response with a non-empty \<^verbatim>\<open>rates\<close>
  mapping and a \<^verbatim>\<open>date\<close> that \<^verbatim>\<open>pd.to_datetime\<close> reads as \<open>ts\<close>, and the write
  succeeds, the run stores the table under
  \<^verbatim>\<open><output_root>/base_currency=<base_currency>/date=<logical date>/data.parquet\<close>, and every
  cell of its \<^verbatim>\<open>date\<close> column is \<open>ts\<close>: no cell is the logical date when the service
  has echoed another date.
\<close>

theorem path_date_is_logical_date:
  assumes "run_task ''extract'' 5 60
             (\<lambda>n. extract_task (requests_get world n) (API_URL cfg) ds (BASE_CURRENCY cfg)) 1
           = (t1, Inr data)"
    and "py_get data ''rates'' (JDict []) = JDict items" and "items \<noteq> []"
    and "map_of data ''date'' = Some v" and "to_datetime v = Inr ts"
    and "get_credentials world = Inr c" and "write_fault world = None"
  shows "\<exists>df cells.
           snd (currency_rates_etl_dag world cfg to_datetime ds gcs)
             = Inr (gcs(OUTPUT_PATH cfg @ ''/base_currency='' @ BASE_CURRENCY cfg @ ''/date='' @ ds
                          @ ''/data.parquet'' \<mapsto> Parquet ''snappy'' df))
         \<and> column df ''date'' = Some cells
         \<and> length cells = length items
         \<and> (\<forall>cell \<in> set cells. cell = Date ts)
         \<and> (\<forall>tl. to_datetime (JStr ds) = Inr tl \<and> tl \<noteq> ts \<longrightarrow> Date tl \<notin> set cells)"
proof -
  from assms(4,5) have "to_datetime (py_get data ''date'' (JStr ds)) = Inr ts"
    by (simp add: py_get_def)
  with assms(2,3) have t: "transform to_datetime data ds (BASE_CURRENCY cfg)
                             = Inr (rate_table ts (BASE_CURRENCY cfg) items)"
    by (rule transform_table)
  have "snd (currency_rates_etl_dag world cfg to_datetime ds gcs)
          = Inr (gcs(OUTPUT_PATH cfg @ ''/base_currency='' @ BASE_CURRENCY cfg @ ''/date='' @ ds
                       @ ''/data.parquet'' \<mapsto>
                     Parquet ''snappy'' (rate_table ts (BASE_CURRENCY cfg) items)))"
    using assms(6,7)
    by (simp add: dag_after_extract [OF assms(1) t] load_def to_parquet_def output_file_def
        partition_path_def)
  moreover have "column (rate_table ts (BASE_CURRENCY cfg) items) ''date''
                   = Some (replicate (length items) (Date ts))"
    by (rule column_date_rate_table)
  moreover have "\<forall>cell \<in> set (replicate (length items) (Date ts)). cell = Date ts"
    by simp
  moreover have "\<forall>tl. to_datetime (JStr ds) = Inr tl \<and> tl \<noteq> ts
                   \<longrightarrow> Date tl \<notin> set (replicate (length items) (Date ts))"
    by auto
  ultimately show ?thesis
    by (intro exI [of _ "rate_table ts (BASE_CURRENCY cfg) items"]
              exI [of _ "replicate (length items) (Date ts)"]) simp
qed
theorem path_date_is_logical_date_witness:
  "map_of [(''date'', JStr ''2025-06-30''), (''rates'', JDict sample_rates)] ''date''
     = Some (JStr ''2025-06-30'')
   \<and> iso_to_datetime (JStr ''2025-06-30'') = Inr (Timestamp 2025 6 30)
   \<and> iso_to_datetime (JStr ''2025-07-01'') = Inr (Timestamp 2025 7 1)
   \<and> (\<exists>df cells.
         snd (currency_rates_etl_dag
                (answering [(''date'', JStr ''2025-06-30''), (''rates'', JDict sample_rates)])
                sample_config iso_to_datetime ''2025-07-01'' Map.empty)
           = Inr [''gs://rates/base_currency=USD/date=2025-07-01/data.parquet'' \<mapsto>
                    Parquet ''snappy'' df]
       \<and> column df ''date'' = Some cells
       \<and> length cells = 2
       \<and> (\<forall>cell \<in> set cells. cell = Date (Timestamp 2025 6 30))
       \<and> Date (Timestamp 2025 7 1) \<notin> set cells)"
proof -
  let ?echo = "[(''date'', JStr ''2025-06-30''), (''rates'', JDict sample_rates)]"
  have e: "run_task ''extract'' 5 60
             (\<lambda>n. extract_task (requests_get (answering ?echo) n) (API_URL sample_config)
                     ''2025-07-01'' (BASE_CURRENCY sample_config)) 1
           = ([Run ''extract'' 1], Inr ?echo)"
    by (rule run_task_first_success) (rule extract_answering)
  have r: "py_get ?echo ''rates'' (JDict []) = JDict sample_rates"
    by (simp add: py_get_def)
  have ne: "sample_rates \<noteq> []" and len: "length sample_rates = 2"
    by (simp_all add: sample_rates_def)
  have v: "map_of ?echo ''date'' = Some (JStr ''2025-06-30'')" by simp
  have c: "get_credentials (answering ?echo) = Inr ()"
    and f: "write_fault (answering ?echo) = None"
    by (simp_all add: answering_def)
  have p: "OUTPUT_PATH sample_config @ ''/base_currency='' @ BASE_CURRENCY sample_config
             @ ''/date='' @ ''2025-07-01'' @ ''/data.parquet''
           = ''gs://rates/base_currency=USD/date=2025-07-01/data.parquet''"
    by (simp add: sample_config_def)
  from path_date_is_logical_date
         [where to_datetime = iso_to_datetime and gcs = "Map.empty :: timestamp bucket",
          OF e r ne v iso_2025_06_30 c f, unfolded p len]
  obtain df cells where
    s: "snd (currency_rates_etl_dag (answering ?echo) sample_config iso_to_datetime
               ''2025-07-01'' Map.empty)
          = Inr [''gs://rates/base_currency=USD/date=2025-07-01/data.parquet'' \<mapsto>
                   Parquet ''snappy'' df]"
    and col: "column df ''date'' = Some cells" and n: "length cells = 2"
    and every: "\<forall>cell \<in> set cells. cell = Date (Timestamp 2025 6 30)"
    and other: "\<forall>tl. iso_to_datetime (JStr ''2025-07-01'') = Inr tl \<and> tl \<noteq> Timestamp 2025 6 30
                  \<longrightarrow> Date tl \<notin> set cells"
    by (elim exE conjE)
  from other have "Date (Timestamp 2025 7 1) \<notin> set cells"
    by (simp add: iso_2025_07_01)
  with s col n every v show ?thesis
    by (simp add: iso_2025_06_30 iso_2025_07_01) blast
qed

end
